theory Spec2Isabelle
  imports Main
begin

section \<open>Values, messages and configuration\<close>

text \<open>
  The server handles JavaScript values taken from JSON bodies: request fields may be
  absent (\<open>undefined\<close>), and the handler only tests them for truthiness. Numbers are
  kept as integers; \<open>JDate\<close> stands for an instant (milliseconds since the epoch)
  that the server prints in ISO-8601 form.
\<close>

datatype jsval =
  JUndefined
  | JNull
  | JBool bool
  | JNum int
  | JStr string
  | JDate int
  | JArr "jsval list"
  | JObj "(string \<times> jsval) list"

text \<open>JavaScript truthiness, as used by \<open>!userId || !message\<close>.\<close>

fun truthy :: "jsval \<Rightarrow> bool" where
  "truthy JUndefined = False"
| "truthy JNull = False"
| "truthy (JBool b) = b"
| "truthy (JNum n) = (n \<noteq> 0)"
| "truthy (JStr s) = (s \<noteq> [])"
| "truthy (JDate t) = True"
| "truthy (JArr xs) = True"
| "truthy (JObj kvs) = True"

record message =
  role :: string
  content :: jsval

definition message_json :: "message \<Rightarrow> jsval" where
  "message_json m = JObj [(''role'', JStr (role m)), (''content'', content m)]"

text \<open>Accented letters of the source's French texts, as their UTF-8 bytes.\<close>

definition e_acute :: string where
  "e_acute = [CHR 0xC3, CHR 0xA9]"

definition e_grave :: string where
  "e_grave = [CHR 0xC3, CHR 0xA8]"

definition c_cedilla :: string where
  "c_cedilla = [CHR 0xC3, CHR 0xA7]"

text \<open>
  Decimal rendering of the limit inside the template literal of the 429 text. This is
  how JavaScript prints an integer of magnitude below \<open>2^53\<close>; beyond that the
  parsed limit is no longer an exact integer (and from \<open>10^21\<close> on it is printed
  in exponent form), so such limits are outside this rendering.
\<close>

fun dec_nat :: "nat \<Rightarrow> string" where
  "dec_nat n =
     (if n < 10 then [char_of (48 + n)]
      else dec_nat (n div 10) @ [char_of (48 + n mod 10)])"

declare dec_nat.simps [simp del]

definition number_text :: "int \<Rightarrow> string" where
  "number_text i = (if i < 0 then CHR ''-'' # dec_nat (nat (- i)) else dec_nat (nat i))"

text \<open>
  \<open>OPENAI_API_KEY\<close> and \<open>MAX_PROMPTS_PER_WEEK\<close> are read from the environment once
  at startup. \<open>parseInt(...) || 4000\<close> falls back to 4000 when the variable is absent,
  not a number (\<open>None\<close>) or zero.
\<close>

record config =
  OPENAI_API_KEY :: string
  MAX_PROMPTS_PER_WEEK :: int

definition max_prompts_from_env :: "int option \<Rightarrow> int" where
  "max_prompts_from_env v = (case v of None \<Rightarrow> 4000 | Some n \<Rightarrow> if n = 0 then 4000 else n)"

section \<open>Server state\<close>

text \<open>
  \<open>userSessions\<close> maps a user id to an array object. The handler of \<open>/api/chat\<close>
  fetches the array before it awaits the upstream call and mutates that same object
  afterwards, so arrays live in a store addressed by references; \<open>next_ref\<close> is the
  next unused address. \<open>count\<close> and \<open>weekStart\<close> are the two fields of
  \<open>promptCounter\<close>, the latter in milliseconds.
\<close>

record server =
  userSessions :: "string \<rightharpoonup> nat"
  arrays :: "nat \<Rightarrow> message list"
  next_ref :: nat
  count :: int
  weekStart :: int

definition startup :: "int \<Rightarrow> server" where
  "startup t0 =
     \<lparr>userSessions = Map.empty, arrays = (\<lambda>r. []), next_ref = 0, count = 0, weekStart = t0\<rparr>"

definition week_ms :: int where
  "week_ms = 7 * 24 * 60 * 60 * 1000"

text \<open>\<open>promptCounter.resetWeekly()\<close>, with \<open>now\<close> the value of \<open>new Date()\<close>.\<close>

definition resetWeekly :: "int \<Rightarrow> server \<Rightarrow> server" where
  "resetWeekly now s =
     (let weeksSince = (now - weekStart s) div week_ms
      in if weeksSince \<ge> 1 then s\<lparr>count := 0, weekStart := now\<rparr> else s)"

text \<open>\<open>Math.max(0, MAX_PROMPTS_PER_WEEK - promptCounter.count)\<close>.\<close>

definition remaining :: "config \<Rightarrow> server \<Rightarrow> int" where
  "remaining cfg s = max 0 (MAX_PROMPTS_PER_WEEK cfg - count s)"

text \<open>
  \<open>userSessions.has(v)\<close> and \<open>userSessions.get(v)\<close> for a request value \<open>v\<close>: the
  keys are strings, so only a string can be found.
\<close>

fun lookup_session :: "server \<Rightarrow> jsval \<Rightarrow> nat option" where
  "lookup_session s (JStr k) = userSessions s k"
| "lookup_session s v = None"

text \<open>The history of a user id, as \<open>userSessions.get\<close> returns it.\<close>

definition history_of :: "server \<Rightarrow> string \<Rightarrow> message list option" where
  "history_of s uid = map_option (arrays s) (userSessions s uid)"

section \<open>Responses\<close>

record response =
  status :: nat
  body :: "(string \<times> jsval) list"

definition session_not_found :: response where
  "session_not_found =
     \<lparr>status = 404, body = [(''error'', JStr (''Session utilisateur non trouv'' @ e_acute @ ''e''))]\<rparr>"

definition missing_fields :: response where
  "missing_fields = \<lparr>status = 400, body = [(''error'', JStr ''userId et message sont requis'')]\<rparr>"

definition weekly_limit_exceeded :: "config \<Rightarrow> response" where
  "weekly_limit_exceeded cfg =
     \<lparr>status = 429,
      body = [(''error'', JStr (''Limite hebdomadaire de '' @ number_text (MAX_PROMPTS_PER_WEEK cfg)
                 @ '' prompts atteinte. R'' @ e_acute @ ''essayez la semaine prochaine.'')),
              (''code'', JStr ''WEEKLY_LIMIT_EXCEEDED'')]\<rparr>"

definition invalid_api_key :: response where
  "invalid_api_key =
     \<lparr>status = 500, body = [(''error'', JStr (''Cl'' @ e_acute @ '' API OpenAI invalide''))]\<rparr>"

definition upstream_limit :: response where
  "upstream_limit =
     \<lparr>status = 429,
      body = [(''error'', JStr (''Limite de l'' @ [CHR 0x27] @ ''API OpenAI atteinte, r''
                 @ e_acute @ ''essayez plus tard''))]\<rparr>"

definition internal_error :: response where
  "internal_error = \<lparr>status = 500, body = [(''error'', JStr ''Erreur interne du serveur'')]\<rparr>"

section \<open>The handlers without an upstream call\<close>

text \<open>\<open>POST /api/user/new\<close>; \<open>uid\<close> is the value \<open>uuidv4()\<close> returned.\<close>

definition new_user :: "string \<Rightarrow> server \<Rightarrow> server \<times> response" where
  "new_user uid s =
     (s\<lparr>userSessions := (userSessions s)(uid \<mapsto> next_ref s),
        arrays := (arrays s)(next_ref s := []),
        next_ref := Suc (next_ref s)\<rparr>,
      \<lparr>status = 200,
       body = [(''userId'', JStr uid),
               (''message'', JStr (''Nouvelle session cr'' @ e_acute @ e_acute @ ''e avec succ''
                  @ e_grave @ ''s''))]\<rparr>)"

text \<open>\<open>GET /api/user/:userId/history\<close>.\<close>

definition get_history :: "string \<Rightarrow> server \<Rightarrow> server \<times> response" where
  "get_history uid s =
     (case history_of s uid of
        None \<Rightarrow> (s, session_not_found)
      | Some h \<Rightarrow> (s, \<lparr>status = 200, body = [(''history'', JArr (map message_json h))]\<rparr>))"

text \<open>\<open>GET /api/stats\<close>.\<close>

definition get_stats :: "config \<Rightarrow> int \<Rightarrow> server \<Rightarrow> server \<times> response" where
  "get_stats cfg now s =
     (let s1 = resetWeekly now s
      in (s1, \<lparr>status = 200,
                body = [(''promptsUsed'', JNum (count s1)),
                        (''maxPrompts'', JNum (MAX_PROMPTS_PER_WEEK cfg)),
                        (''remaining'', JNum (remaining cfg s1)),
                        (''weekStart'', JDate (weekStart s1))]\<rparr>))"

text \<open>\<open>GET /api/health\<close>.\<close>

definition get_health :: "config \<Rightarrow> int \<Rightarrow> server \<Rightarrow> server \<times> response" where
  "get_health cfg now s =
     (s, \<lparr>status = 200,
          body = [(''status'', JStr ''OK''),
                  (''timestamp'', JDate now),
                  (''promptsUsed'', JNum (count s)),
                  (''maxPrompts'', JNum (MAX_PROMPTS_PER_WEEK cfg))]\<rparr>)"

section \<open>The chat handler\<close>

text \<open>
  The handler of \<open>POST /api/chat\<close> runs in two steps separated by the \<open>await\<close> of
  the upstream call. What the upstream may answer:
  \<^item> \<open>Completed v\<close>: a 2xx answer with \<open>data.choices[0].message.content = v\<close>;
  \<^item> \<open>Malformed\<close>: a 2xx answer where reading that path throws;
  \<^item> \<open>HttpError st payload\<close>: axios rejects with \<open>error.response.status = st\<close>;
  \<^item> \<open>NoResponse msg\<close>: axios rejects without a response.
\<close>

datatype api_outcome =
  Completed jsval
  | Malformed
  | HttpError nat jsval
  | NoResponse string

record api_request =
  model :: string
  messages :: "message list"
  max_tokens :: nat
  temperature :: string
  authorization :: string

record chat_body =
  userId :: jsval
  message :: jsval

text \<open>What the suspended handler holds across the \<open>await\<close>.\<close>

record pending =
  p_userId :: string
  p_message :: jsval
  conversation :: nat
  call :: api_request

definition system_message :: message where
  "system_message =
     \<lparr>role = ''system'',
      content = JStr (''Tu es un assistant IA utile et bienveillant. R'' @ e_acute
        @ ''ponds de mani'' @ e_grave @ ''re concise et professionnelle en fran''
        @ c_cedilla @ ''ais.'')\<rparr>"

definition build_request :: "config \<Rightarrow> message list \<Rightarrow> jsval \<Rightarrow> api_request" where
  "build_request cfg conv msg =
     \<lparr>model = ''gpt-4o-mini'',
      messages = [system_message] @ conv @ [\<lparr>role = ''user'', content = msg\<rparr>],
      max_tokens = 1000,
      temperature = ''0.7'',
      authorization = ''Bearer '' @ OPENAI_API_KEY cfg\<rparr>"

text \<open>
  From the start of the handler to the \<open>await\<close>: either an early response, or the
  suspended handler with the request it has sent. A request without a parsed body
  (\<open>None\<close>) makes the destructuring throw, which the \<open>catch\<close> block answers.
\<close>

definition chat_begin ::
  "config \<Rightarrow> int \<Rightarrow> chat_body option \<Rightarrow> server \<Rightarrow> server \<times> (response + pending)" where
  "chat_begin cfg now req s =
     (case req of
        None \<Rightarrow> (s, Inl internal_error)
      | Some b \<Rightarrow>
          if \<not> truthy (userId b) \<or> \<not> truthy (message b) then (s, Inl missing_fields)
          else (case lookup_session s (userId b) of
                  None \<Rightarrow> (s, Inl session_not_found)
                | Some r \<Rightarrow>
                    let s1 = resetWeekly now s
                    in if count s1 \<ge> MAX_PROMPTS_PER_WEEK cfg
                       then (s1, Inl (weekly_limit_exceeded cfg))
                       else (s1, Inr \<lparr>p_userId = (case userId b of JStr k \<Rightarrow> k | _ \<Rightarrow> []),
                                      p_message = message b,
                                      conversation = r,
                                      call = build_request cfg (arrays s1 r) (message b)\<rparr>)))"

text \<open>\<open>conversation.splice(0, conversation.length - 20)\<close> when longer than 20.\<close>

definition trim :: "message list \<Rightarrow> message list" where
  "trim c = (if length c > 20 then drop (length c - 20) c else c)"

text \<open>The \<open>catch\<close> block.\<close>

fun error_response :: "api_outcome \<Rightarrow> response" where
  "error_response (HttpError st payload) =
     (if st = 401 then invalid_api_key
      else if st = 429 then upstream_limit
      else internal_error)"
| "error_response out = internal_error"

text \<open>From the \<open>await\<close> to the response.\<close>

fun chat_resume :: "config \<Rightarrow> pending \<Rightarrow> api_outcome \<Rightarrow> server \<Rightarrow> server \<times> response" where
  "chat_resume cfg p (Completed aiResponse) s =
     (let r = conversation p;
          pushed = arrays s r @ [\<lparr>role = ''user'', content = p_message p\<rparr>,
                                 \<lparr>role = ''assistant'', content = aiResponse\<rparr>];
          s1 = s\<lparr>arrays := (arrays s)(r := trim pushed)\<rparr>;
          s2 = s1\<lparr>userSessions := (userSessions s1)(p_userId p \<mapsto> r)\<rparr>;
          s3 = s2\<lparr>count := count s2 + 1\<rparr>
      in (s3, \<lparr>status = 200,
                body = [(''response'', aiResponse),
                        (''promptsRemaining'', JNum (remaining cfg s3))]\<rparr>))"
| "chat_resume cfg p out s = (s, error_response out)"

text \<open>
  A chat request served with no other handler running during its \<open>await\<close>;
  \<open>out\<close> is the upstream's answer to the request sent, if one is sent.
\<close>

definition chat ::
  "config \<Rightarrow> int \<Rightarrow> chat_body option \<Rightarrow> api_outcome \<Rightarrow> server \<Rightarrow> server \<times> response" where
  "chat cfg now req out s =
     (case chat_begin cfg now req s of
        (s1, Inl resp) \<Rightarrow> (s1, resp)
      | (s1, Inr p) \<Rightarrow> chat_resume cfg p out s1)"

section \<open>Requests in flight\<close>

text \<open>
  Node runs one handler at a time, but a chat handler gives way at its \<open>await\<close>:
  other handlers, and the first halves of other chat requests, run before it resumes.
  An event is one uninterrupted piece of handler code; \<open>inflight\<close> holds the
  suspended chat handlers, and \<open>ChatResume k out\<close> resumes the \<open>k\<close>-th of
  them with the upstream's answer \<open>out\<close>.
\<close>

datatype event =
  NewUser string
  | GetHistory string
  | GetStats int
  | GetHealth int
  | ChatBegin int "chat_body option"
  | ChatResume nat api_outcome

record world =
  srv :: server
  inflight :: "pending list"

definition boot :: "int \<Rightarrow> world" where
  "boot t0 = \<lparr>srv = startup t0, inflight = []\<rparr>"

fun exec :: "config \<Rightarrow> event \<Rightarrow> world \<Rightarrow> world" where
  "exec cfg (NewUser uid) w = w\<lparr>srv := fst (new_user uid (srv w))\<rparr>"
| "exec cfg (GetHistory uid) w = w\<lparr>srv := fst (get_history uid (srv w))\<rparr>"
| "exec cfg (GetStats now) w = w\<lparr>srv := fst (get_stats cfg now (srv w))\<rparr>"
| "exec cfg (GetHealth now) w = w\<lparr>srv := fst (get_health cfg now (srv w))\<rparr>"
| "exec cfg (ChatBegin now req) w =
     (case chat_begin cfg now req (srv w) of
        (s1, Inl resp) \<Rightarrow> w\<lparr>srv := s1\<rparr>
      | (s1, Inr p) \<Rightarrow> \<lparr>srv = s1, inflight = inflight w @ [p]\<rparr>)"
| "exec cfg (ChatResume k out) w =
     (if k < length (inflight w)
      then \<lparr>srv = fst (chat_resume cfg (inflight w ! k) out (srv w)),
            inflight = take k (inflight w) @ drop (Suc k) (inflight w)\<rparr>
      else w)"

fun run :: "config \<Rightarrow> event list \<Rightarrow> world \<Rightarrow> world" where
  "run cfg [] w = w"
| "run cfg (e # evs) w = run cfg evs (exec cfg e w)"

text \<open>
  A run serves chat requests one at a time when no chat request starts while another
  one is suspended.
\<close>

fun one_at_a_time :: "config \<Rightarrow> event list \<Rightarrow> world \<Rightarrow> bool" where
  "one_at_a_time cfg [] w = True"
| "one_at_a_time cfg (ChatBegin now req # evs) w =
     (inflight w = [] \<and> one_at_a_time cfg evs (exec cfg (ChatBegin now req) w))"
| "one_at_a_time cfg (e # evs) w = one_at_a_time cfg evs (exec cfg e w)"

text \<open>
  A stored history alternates: a user entry, then an assistant entry, and so on.
\<close>

fun alternating :: "message list \<Rightarrow> bool" where
  "alternating [] = True"
| "alternating [m] = False"
| "alternating (u # a # rest) = (role u = ''user'' \<and> role a = ''assistant'' \<and> alternating rest)"

section \<open>A sample run\<close>

text \<open>
  One session and ten successful exchanges on it, each served before the next one
  starts; the history then holds ten user/assistant pairs.
\<close>

definition example_config :: config where
  "example_config = \<lparr>OPENAI_API_KEY = ''sk-test'', MAX_PROMPTS_PER_WEEK = 4000\<rparr>"

definition ten_exchanges :: "event list" where
  "ten_exchanges =
     NewUser ''u1'' # concat (replicate 10
       [ChatBegin 1000 (Some \<lparr>userId = JStr ''u1'', message = JStr ''q''\<rparr>),
        ChatResume 0 (Completed (JStr ''r''))])"

definition ten_pairs :: "message list" where
  "ten_pairs =
     concat (replicate 10 [\<lparr>role = ''user'', content = JStr ''q''\<rparr>,
                           \<lparr>role = ''assistant'', content = JStr ''r''\<rparr>])"

text \<open>Two exchanges with distinct messages, the second one after the first.\<close>

definition two_exchanges :: "event list" where
  "two_exchanges =
     [NewUser ''u1'',
      ChatBegin 1000 (Some \<lparr>userId = JStr ''u1'', message = JStr ''first''\<rparr>),
      ChatResume 0 (Completed (JStr ''one'')),
      ChatBegin 1001 (Some \<lparr>userId = JStr ''u1'', message = JStr ''second''\<rparr>),
      ChatResume 0 (Completed (JStr ''two''))]"

text \<open>
  The same two requests with a limit of 1, the second one starting while the first
  one awaits the upstream's answer.
\<close>

definition limit_one :: config where
  "limit_one = \<lparr>OPENAI_API_KEY = ''sk-test'', MAX_PROMPTS_PER_WEEK = 1\<rparr>"

definition two_overlapping :: "event list" where
  "two_overlapping =
     [NewUser ''u1'',
      ChatBegin 1000 (Some \<lparr>userId = JStr ''u1'', message = JStr ''first''\<rparr>),
      ChatBegin 1001 (Some \<lparr>userId = JStr ''u1'', message = JStr ''second''\<rparr>),
      ChatResume 0 (Completed (JStr ''one'')),
      ChatResume 0 (Completed (JStr ''two''))]"

section \<open>Auxiliary facts\<close>

subsection \<open>The weekly window\<close>

lemma week_ms_pos: "0 < week_ms"
  by (simp add: week_ms_def)

lemma weeksSince_ge_1: "(1 \<le> d div week_ms) = (week_ms \<le> d)"
  using pos_imp_zdiv_pos_iff [OF week_ms_pos, of d] by linarith

lemma resetWeekly_eq:
  "resetWeekly now s =
     (if week_ms \<le> now - weekStart s then s\<lparr>count := 0, weekStart := now\<rparr> else s)"
  by (simp add: resetWeekly_def Let_def weeksSince_ge_1)

lemma resetWeekly_keeps [simp]:
  "userSessions (resetWeekly now s) = userSessions s"
  "arrays (resetWeekly now s) = arrays s"
  "next_ref (resetWeekly now s) = next_ref s"
  by (simp_all add: resetWeekly_eq)

lemma history_of_resetWeekly [simp]: "history_of (resetWeekly now s) uid = history_of s uid"
  by (simp add: history_of_def)

subsection \<open>Trimming and alternation\<close>

lemma trim_drop: "trim c = drop (length c - 20) c"
  by (simp add: trim_def)

lemma length_trim: "length (trim c) \<le> 20"
  by (simp add: trim_def)

lemma alternating_append_pair:
  "alternating h \<Longrightarrow> role u = ''user'' \<Longrightarrow> role a = ''assistant'' \<Longrightarrow> alternating (h @ [u, a])"
  by (induction h rule: alternating.induct) simp_all

lemma alternating_even: "alternating h \<Longrightarrow> even (length h)"
  by (induction h rule: alternating.induct) simp_all

lemma alternating_drop: "alternating h \<Longrightarrow> even k \<Longrightarrow> alternating (drop k h)"
proof (induction h arbitrary: k rule: alternating.induct)
  case 1
  then show ?case by simp
next
  case (2 m)
  then show ?case by simp
next
  case (3 u a rest)
  show ?case
  proof (cases k)
    case 0
    with 3 show ?thesis by simp
  next
    case (Suc j)
    with \<open>even k\<close> obtain i where "j = Suc i" by (cases j) auto
    with Suc 3 show ?thesis by simp
  qed
qed

lemma alternating_trim: "alternating c \<Longrightarrow> alternating (trim c)"
  unfolding trim_drop by (rule alternating_drop) (auto dest: alternating_even)

lemma alternating_nth:
  "alternating h \<Longrightarrow> i < length h \<Longrightarrow> role (h ! i) = (if even i then ''user'' else ''assistant'')"
proof (induction h arbitrary: i rule: alternating.induct)
  case 1
  then show ?case by simp
next
  case (2 m)
  then show ?case by simp
next
  case (3 u a rest)
  show ?case
  proof (cases i)
    case 0
    with 3 show ?thesis by simp
  next
    case (Suc j)
    show ?thesis
    proof (cases j)
      case 0
      with Suc 3 show ?thesis by simp
    next
      case (Suc l)
      with \<open>i = Suc j\<close> 3 show ?thesis by simp
    qed
  qed
qed

subsection \<open>What the handlers do to the store\<close>

lemma chat_begin_keeps:
  "userSessions (fst (chat_begin cfg now req s)) = userSessions s"
  "arrays (fst (chat_begin cfg now req s)) = arrays s"
  by (simp_all add: chat_begin_def Let_def split: option.splits)

lemma chat_begin_cases:
  "fst (chat_begin cfg now req s) = s \<or> fst (chat_begin cfg now req s) = resetWeekly now s"
  by (simp add: chat_begin_def Let_def split: option.splits)

lemma arrays_chat_resume:
  "arrays (fst (chat_resume cfg p out s)) =
     (case out of
        Completed v \<Rightarrow>
          (arrays s)(conversation p :=
             trim (arrays s (conversation p)
                   @ [\<lparr>role = ''user'', content = p_message p\<rparr>, \<lparr>role = ''assistant'', content = v\<rparr>]))
      | _ \<Rightarrow> arrays s)"
  by (cases out) (simp_all add: Let_def)

lemma count_chat_resume:
  "count (fst (chat_resume cfg p out s)) = (case out of Completed v \<Rightarrow> count s + 1 | _ \<Rightarrow> count s)"
  by (cases out) (simp_all add: Let_def)

lemma arrays_exec_cases:
  "arrays (srv (exec cfg e w)) = arrays (srv w)
   \<or> (\<exists>r. arrays (srv (exec cfg e w)) = (arrays (srv w))(r := []))
   \<or> (\<exists>r u a. role u = ''user'' \<and> role a = ''assistant''
        \<and> arrays (srv (exec cfg e w)) = (arrays (srv w))(r := trim (arrays (srv w) r @ [u, a])))"
proof (cases e)
  case (NewUser uid)
  then show ?thesis by (auto simp: new_user_def)
next
  case (GetHistory uid)
  then show ?thesis by (simp add: get_history_def split: option.splits)
next
  case (GetStats now)
  then show ?thesis by (simp add: get_stats_def Let_def)
next
  case (GetHealth now)
  then show ?thesis by (simp add: get_health_def)
next
  case (ChatBegin now req)
  have "arrays (srv (exec cfg (ChatBegin now req) w)) = arrays (srv w)"
    using chat_begin_keeps(2) [of cfg now req "srv w"]
    by (auto split: prod.splits sum.splits)
  with ChatBegin show ?thesis by simp
next
  case (ChatResume k out)
  show ?thesis
  proof (cases out)
    case (Completed v)
    show ?thesis
    proof (cases "k < length (inflight w)")
      case True
      let ?p = "inflight w ! k"
      let ?u = "\<lparr>role = ''user'', content = p_message ?p\<rparr>"
      let ?a = "\<lparr>role = ''assistant'', content = v\<rparr>"
      have "role ?u = ''user'' \<and> role ?a = ''assistant''
        \<and> arrays (srv (exec cfg e w)) =
            (arrays (srv w))(conversation ?p := trim (arrays (srv w) (conversation ?p) @ [?u, ?a]))"
        using True ChatResume Completed by (simp add: Let_def)
      then show ?thesis by blast
    next
      case False
      with ChatResume show ?thesis by simp
    qed
  qed (use ChatResume in simp_all)
qed

lemma exec_keeps_histories:
  assumes "\<forall>r. length (arrays (srv w) r) \<le> 20 \<and> alternating (arrays (srv w) r)"
  shows "\<forall>r. length (arrays (srv (exec cfg e w)) r) \<le> 20 \<and> alternating (arrays (srv (exec cfg e w)) r)"
  using arrays_exec_cases [of cfg e w] assms
  by (auto simp: length_trim alternating_trim alternating_append_pair)

lemma run_keeps_histories:
  "\<forall>r. length (arrays (srv w) r) \<le> 20 \<and> alternating (arrays (srv w) r) \<Longrightarrow>
   \<forall>r. length (arrays (srv (run cfg evs w)) r) \<le> 20 \<and> alternating (arrays (srv (run cfg evs w)) r)"
proof (induction evs arbitrary: w)
  case Nil
  then show ?case by simp
next
  case (Cons e evs)
  from Cons.IH [OF exec_keeps_histories [OF Cons.prems]] show ?case by simp
qed

lemma boot_histories: "arrays (srv (boot t0)) r = []"
  by (simp add: boot_def startup_def)

subsection \<open>The counter in runs served one at a time\<close>

lemma count_resetWeekly_cases: "count (resetWeekly now s) = count s \<or> count (resetWeekly now s) = 0"
  by (simp add: resetWeekly_eq)

lemma exec_keeps_budget:
  assumes inv: "0 \<le> count (srv w) \<and> count (srv w) + int (length (inflight w)) \<le> MAX_PROMPTS_PER_WEEK cfg"
    and one: "one_at_a_time cfg (e # evs) w"
  shows "0 \<le> count (srv (exec cfg e w))
     \<and> count (srv (exec cfg e w)) + int (length (inflight (exec cfg e w))) \<le> MAX_PROMPTS_PER_WEEK cfg"
proof (cases e)
  case (NewUser uid)
  with inv show ?thesis by (simp add: new_user_def)
next
  case (GetHistory uid)
  with inv show ?thesis by (simp add: get_history_def split: option.splits)
next
  case (GetStats now)
  with inv count_resetWeekly_cases [of now "srv w"] show ?thesis
    by (auto simp: get_stats_def Let_def)
next
  case (GetHealth now)
  with inv show ?thesis by (simp add: get_health_def)
next
  case (ChatBegin now req)
  with one have empty: "inflight w = []" by simp
  with inv ChatBegin count_resetWeekly_cases [of now "srv w"] show ?thesis
    by (auto simp: chat_begin_def Let_def split: option.splits)
next
  case (ChatResume k out)
  show ?thesis
  proof (cases "k < length (inflight w)")
    case True
    then have "length (take k (inflight w) @ drop (Suc k) (inflight w)) = length (inflight w) - 1"
      by simp
    with True inv ChatResume show ?thesis
      by (cases out) (auto simp: Let_def)
  next
    case False
    with inv ChatResume show ?thesis by simp
  qed
qed

lemma one_at_a_time_tail: "one_at_a_time cfg (e # evs) w \<Longrightarrow> one_at_a_time cfg evs (exec cfg e w)"
  by (cases e) (simp_all del: exec.simps)

lemma run_keeps_budget:
  "0 \<le> count (srv w) \<and> count (srv w) + int (length (inflight w)) \<le> MAX_PROMPTS_PER_WEEK cfg \<Longrightarrow>
   one_at_a_time cfg evs w \<Longrightarrow>
   count (srv (run cfg (take k evs) w)) \<le> MAX_PROMPTS_PER_WEEK cfg"
proof (induction evs arbitrary: w k)
  case Nil
  then show ?case by simp
next
  case (Cons e evs)
  show ?case
  proof (cases k)
    case 0
    with Cons.prems show ?thesis by simp
  next
    case (Suc j)
    from Cons.IH [OF exec_keeps_budget [OF Cons.prems] one_at_a_time_tail [OF Cons.prems(2)], of j]
    show ?thesis using Suc by simp
  qed
qed

lemma serial_runs_keep_limit:
  assumes "0 \<le> MAX_PROMPTS_PER_WEEK cfg" and "one_at_a_time cfg evs (boot t0)"
  shows "count (srv (run cfg (take k evs) (boot t0))) \<le> MAX_PROMPTS_PER_WEEK cfg"
proof -
  have "0 \<le> count (srv (boot t0))
     \<and> count (srv (boot t0)) + int (length (inflight (boot t0))) \<le> MAX_PROMPTS_PER_WEEK cfg"
    using assms(1) by (simp add: boot_def startup_def)
  from run_keeps_budget [OF this assms(2)] show ?thesis .
qed

subsection \<open>The first half of the chat handler\<close>

lemma chat_begin_pending:
  assumes "chat_begin cfg now req s = (s1, Inr p)"
  shows "\<exists>b uid r. req = Some b \<and> userId b = JStr uid \<and> uid \<noteq> [] \<and> truthy (message b)
           \<and> userSessions s uid = Some r \<and> s1 = resetWeekly now s
           \<and> count s1 < MAX_PROMPTS_PER_WEEK cfg
           \<and> p = \<lparr>p_userId = uid, p_message = message b, conversation = r,
                   call = build_request cfg (arrays s r) (message b)\<rparr>"
proof -
  from assms obtain b where b: "req = Some b"
    by (cases req) (simp_all add: chat_begin_def)
  from assms b have t: "truthy (userId b)" "truthy (message b)"
    by (auto simp: chat_begin_def split: if_splits)
  from assms b t obtain r where r: "lookup_session s (userId b) = Some r"
    by (cases "lookup_session s (userId b)") (simp_all add: chat_begin_def)
  then obtain uid where uid: "userId b = JStr uid" "userSessions s uid = Some r"
    by (cases "userId b") simp_all
  from assms b t r uid show ?thesis
    by (auto simp: chat_begin_def Let_def split: if_splits)
qed

lemma chat_begin_proceeds:
  assumes "userId b = JStr uid" "uid \<noteq> []" "truthy (message b)" "userSessions s uid = Some r"
    "count (resetWeekly now s) < MAX_PROMPTS_PER_WEEK cfg"
  shows "chat_begin cfg now (Some b) s =
     (resetWeekly now s,
      Inr \<lparr>p_userId = uid, p_message = message b, conversation = r,
           call = build_request cfg (arrays s r) (message b)\<rparr>)"
  using assms by (simp add: chat_begin_def Let_def)

subsection \<open>Histories\<close>

lemma trim_pushed:
  "trim (old @ [u, a]) = drop (length old - 18) old @ [u, a]"
  by (simp add: trim_drop)

lemma history_of_chat_resume:
  "history_of (fst (chat_resume cfg p (Completed v) s)) (p_userId p)
     = Some (drop (length (arrays s (conversation p)) - 18) (arrays s (conversation p))
             @ [\<lparr>role = ''user'', content = p_message p\<rparr>, \<lparr>role = ''assistant'', content = v\<rparr>])"
  by (simp add: history_of_def Let_def trim_pushed)

lemma run_history_ok:
  assumes "history_of (srv (run cfg evs (boot t0))) uid = Some h"
  shows "length h \<le> 20 \<and> alternating h"
proof -
  have "\<forall>r. length (arrays (srv (boot t0)) r) \<le> 20 \<and> alternating (arrays (srv (boot t0)) r)"
    by (simp add: boot_histories)
  from run_keeps_histories [OF this, of cfg evs] assms show ?thesis
    by (auto simp: history_of_def)
qed

subsection \<open>The sample run\<close>

lemma ten_exchanges_history:
  "history_of (srv (run example_config ten_exchanges (boot 0))) ''u1'' = Some ten_pairs"
  by code_simp

lemma ten_exchanges_session:
  "userSessions (srv (run example_config ten_exchanges (boot 0))) ''u1'' = Some 0"
  by code_simp

lemma ten_exchanges_count:
  "count (resetWeekly 2000 (srv (run example_config ten_exchanges (boot 0))))
     < MAX_PROMPTS_PER_WEEK example_config"
  by code_simp

lemma length_ten_pairs: "length ten_pairs = 20"
  by code_simp

lemma two_exchanges_history:
  "history_of (srv (run example_config two_exchanges (boot 0))) ''u1''
     = Some [\<lparr>role = ''user'', content = JStr ''first''\<rparr>,
             \<lparr>role = ''assistant'', content = JStr ''one''\<rparr>,
             \<lparr>role = ''user'', content = JStr ''second''\<rparr>,
             \<lparr>role = ''assistant'', content = JStr ''two''\<rparr>]"
  by code_simp

lemma two_exchanges_session:
  "userSessions (srv (run example_config two_exchanges (boot 0))) ''u1'' = Some 0"
  by code_simp

lemma two_exchanges_count:
  "count (resetWeekly 2000 (srv (run example_config two_exchanges (boot 0))))
     < MAX_PROMPTS_PER_WEEK example_config"
  by code_simp

section \<open>The weekly window\<close>

text \<open>
  Claim C7. The reset check fires exactly when at least seven days (604800000 ms) have
  passed since \<open>weekStart\<close>: it then sets \<open>count\<close> to 0 and \<open>weekStart\<close>
  to the current time, so that the remaining quota is the maximum again (for a limit
  that is not negative; in general it is \<open>max 0\<close> of the limit). When less time has
  passed the state is unchanged, and a second check at the same instant changes nothing.
\<close>

theorem resetWeekly_window:
  "(week_ms \<le> now - weekStart s \<longrightarrow>
      resetWeekly now s = s\<lparr>count := 0, weekStart := now\<rparr>
      \<and> remaining cfg (resetWeekly now s) = max 0 (MAX_PROMPTS_PER_WEEK cfg)
      \<and> (0 \<le> MAX_PROMPTS_PER_WEEK cfg \<longrightarrow>
           remaining cfg (resetWeekly now s) = MAX_PROMPTS_PER_WEEK cfg))
   \<and> (now - weekStart s < week_ms \<longrightarrow> resetWeekly now s = s)
   \<and> resetWeekly now (resetWeekly now s) = resetWeekly now s
   \<and> week_ms = 604800000"
  using week_ms_pos by (auto simp: resetWeekly_eq remaining_def) (simp add: week_ms_def)

theorem resetWeekly_window_witness:
  "week_ms \<le> 604800000 - weekStart ((startup 0)\<lparr>count := 5\<rparr>)
   \<and> 0 \<le> MAX_PROMPTS_PER_WEEK \<lparr>OPENAI_API_KEY = ''sk-test'', MAX_PROMPTS_PER_WEEK = 4000\<rparr>
   \<and> count (resetWeekly 604800000 ((startup 0)\<lparr>count := 5\<rparr>)) = 0
   \<and> weekStart (resetWeekly 604800000 ((startup 0)\<lparr>count := 5\<rparr>)) = 604800000
   \<and> remaining \<lparr>OPENAI_API_KEY = ''sk-test'', MAX_PROMPTS_PER_WEEK = 4000\<rparr>
        (resetWeekly 604800000 ((startup 0)\<lparr>count := 5\<rparr>)) = 4000
   \<and> 604799999 - weekStart ((startup 0)\<lparr>count := 5\<rparr>) < week_ms
   \<and> resetWeekly 604799999 ((startup 0)\<lparr>count := 5\<rparr>) = (startup 0)\<lparr>count := 5\<rparr>"
  using resetWeekly_window [of 604800000 "(startup 0)\<lparr>count := 5\<rparr>"
      "\<lparr>OPENAI_API_KEY = ''sk-test'', MAX_PROMPTS_PER_WEEK = 4000\<rparr>", unfolded week_ms_def]
    resetWeekly_window [of 604799999 "(startup 0)\<lparr>count := 5\<rparr>"
      "\<lparr>OPENAI_API_KEY = ''sk-test'', MAX_PROMPTS_PER_WEEK = 4000\<rparr>", unfolded week_ms_def]
  by (auto simp: startup_def week_ms_def remaining_def)

section \<open>When the counter is charged\<close>

text \<open>
  Claim C1, as amended. A chat request that passes validation and the quota check
  leaves the counter at its value after the lazy reset until the upstream call has
  returned. The counter is incremented only after a successful call: a request whose
  call fails leaves the counter unchanged, one whose call succeeds raises it by one.
  This holds for the request served alone and for the resumed handler in any state.
\<close>

theorem chat_counter_charged_after_success:
  assumes "chat_begin cfg now req s = (s1, Inr p)"
  shows "count s1 = count (resetWeekly now s)
     \<and> count (fst (chat cfg now req out s)) =
         (case out of Completed v \<Rightarrow> count (resetWeekly now s) + 1 | _ \<Rightarrow> count (resetWeekly now s))
     \<and> (\<forall>s'. count (fst (chat_resume cfg p out s')) =
         (case out of Completed v \<Rightarrow> count s' + 1 | _ \<Rightarrow> count s'))"
  using chat_begin_pending [OF assms] assms
  by (auto simp: chat_def count_chat_resume)

theorem chat_counter_charged_after_success_witness:
  "chat_begin \<lparr>OPENAI_API_KEY = ''sk-test'', MAX_PROMPTS_PER_WEEK = 4000\<rparr> 1000
      (Some \<lparr>userId = JStr ''u1'', message = JStr ''hi''\<rparr>) (fst (new_user ''u1'' (startup 0)))
     = (resetWeekly 1000 (fst (new_user ''u1'' (startup 0))),
        Inr \<lparr>p_userId = ''u1'', p_message = JStr ''hi'', conversation = 0,
             call = build_request \<lparr>OPENAI_API_KEY = ''sk-test'', MAX_PROMPTS_PER_WEEK = 4000\<rparr>
                      [] (JStr ''hi'')\<rparr>)
   \<and> count (fst (chat \<lparr>OPENAI_API_KEY = ''sk-test'', MAX_PROMPTS_PER_WEEK = 4000\<rparr> 1000
        (Some \<lparr>userId = JStr ''u1'', message = JStr ''hi''\<rparr>) (HttpError 503 JNull)
        (fst (new_user ''u1'' (startup 0))))) = 0
   \<and> count (fst (chat \<lparr>OPENAI_API_KEY = ''sk-test'', MAX_PROMPTS_PER_WEEK = 4000\<rparr> 1000
        (Some \<lparr>userId = JStr ''u1'', message = JStr ''hi''\<rparr>) (Completed (JStr ''ok''))
        (fst (new_user ''u1'' (startup 0))))) = 1"
proof -
  let ?cfg = "\<lparr>OPENAI_API_KEY = ''sk-test'', MAX_PROMPTS_PER_WEEK = 4000\<rparr>"
  let ?s = "fst (new_user ''u1'' (startup 0))"
  have r: "count (resetWeekly 1000 ?s) = 0"
    by (simp add: resetWeekly_eq new_user_def startup_def week_ms_def)
  have h: "chat_begin ?cfg 1000 (Some \<lparr>userId = JStr ''u1'', message = JStr ''hi''\<rparr>) ?s
     = (resetWeekly 1000 ?s,
        Inr \<lparr>p_userId = ''u1'', p_message = JStr ''hi'', conversation = 0,
             call = build_request ?cfg [] (JStr ''hi'')\<rparr>)"
    using chat_begin_proceeds [of "\<lparr>userId = JStr ''u1'', message = JStr ''hi''\<rparr>" "''u1''" ?s 0 1000 ?cfg]
    by (simp add: r) (simp add: new_user_def startup_def)
  from chat_counter_charged_after_success [OF h, of "HttpError 503 JNull"]
    chat_counter_charged_after_success [OF h, of "Completed (JStr ''ok'')"] h r
  show ?thesis by simp
qed

text \<open>
  Claim C1 as stated, that a failed call still consumes one unit, fails: a valid
  request on an existing session whose upstream call answers 503 gets a 500 and the
  counter is not the previous value plus one.
\<close>

theorem failed_call_consumes_quota_counterexample:
  "\<not> isl (snd (chat_begin \<lparr>OPENAI_API_KEY = ''sk-test'', MAX_PROMPTS_PER_WEEK = 4000\<rparr> 1000
            (Some \<lparr>userId = JStr ''u1'', message = JStr ''hi''\<rparr>)
            (fst (new_user ''u1'' (startup 0)))))
   \<and> status (snd (chat \<lparr>OPENAI_API_KEY = ''sk-test'', MAX_PROMPTS_PER_WEEK = 4000\<rparr> 1000
            (Some \<lparr>userId = JStr ''u1'', message = JStr ''hi''\<rparr>) (HttpError 503 JNull)
            (fst (new_user ''u1'' (startup 0))))) = 500
   \<and> count (fst (chat \<lparr>OPENAI_API_KEY = ''sk-test'', MAX_PROMPTS_PER_WEEK = 4000\<rparr> 1000
            (Some \<lparr>userId = JStr ''u1'', message = JStr ''hi''\<rparr>) (HttpError 503 JNull)
            (fst (new_user ''u1'' (startup 0)))))
       \<noteq> count (fst (new_user ''u1'' (startup 0))) + 1"
  by (simp add: chat_def chat_begin_def new_user_def startup_def resetWeekly_def week_ms_def
      internal_error_def Let_def)

section \<open>Concurrent chat requests and the limit\<close>

text \<open>
  Claim C2. Under concurrent chat requests the count is meant never to exceed
  \<open>MAX_PROMPTS_PER_WEEK\<close>. The handler checks the count before the awaited upstream
  call and increments it after the call. At the failing input, a limit of 1 and two
  chat requests of which the second starts while the first awaits its answer, both
  requests pass the check with the count at 0 and both are sent upstream; when both
  calls succeed the count is 2, above the limit, and each request was answered 200.
\<close>

theorem concurrent_requests_exceed_limit:
  "MAX_PROMPTS_PER_WEEK limit_one = 1
   \<and> count (srv (run limit_one (take 3 two_overlapping) (boot 0))) = 0
   \<and> length (inflight (run limit_one (take 3 two_overlapping) (boot 0))) = 2
   \<and> status (snd (chat_resume limit_one
         (inflight (run limit_one (take 3 two_overlapping) (boot 0)) ! 0) (Completed (JStr ''one''))
         (srv (run limit_one (take 3 two_overlapping) (boot 0))))) = 200
   \<and> status (snd (chat_resume limit_one
         (inflight (run limit_one (take 4 two_overlapping) (boot 0)) ! 0) (Completed (JStr ''two''))
         (srv (run limit_one (take 4 two_overlapping) (boot 0))))) = 200
   \<and> count (srv (run limit_one two_overlapping (boot 0))) = 2
   \<and> MAX_PROMPTS_PER_WEEK limit_one < count (srv (run limit_one two_overlapping (boot 0)))"
  by code_simp

section \<open>An upstream rate limit\<close>

text \<open>
  Claim C3, as amended. When the upstream answers a chat request with HTTP 429, the
  gateway answers 429 as well, with a fixed rate-limit message and no \<open>code\<close>
  field, and leaves the state as it was after the quota check. This holds for the
  request served alone and for the resumed handler in any state.
\<close>

theorem upstream_rate_limit_answer:
  assumes "chat_begin cfg now req s = (s1, Inr p)"
  shows "chat cfg now req (HttpError 429 payload) s = (resetWeekly now s, upstream_limit)
     \<and> (\<forall>s'. chat_resume cfg p (HttpError 429 payload) s' = (s', upstream_limit))
     \<and> status upstream_limit = 429
     \<and> map_of (body upstream_limit) ''code'' = None"
  using chat_begin_pending [OF assms] assms
  by (auto simp: chat_def upstream_limit_def)

theorem upstream_rate_limit_answer_witness:
  "chat_begin \<lparr>OPENAI_API_KEY = ''sk-test'', MAX_PROMPTS_PER_WEEK = 4000\<rparr> 1000
      (Some \<lparr>userId = JStr ''u1'', message = JStr ''hi''\<rparr>) (fst (new_user ''u1'' (startup 0)))
     = (resetWeekly 1000 (fst (new_user ''u1'' (startup 0))),
        Inr \<lparr>p_userId = ''u1'', p_message = JStr ''hi'', conversation = 0,
             call = build_request \<lparr>OPENAI_API_KEY = ''sk-test'', MAX_PROMPTS_PER_WEEK = 4000\<rparr>
                      [] (JStr ''hi'')\<rparr>)
   \<and> snd (chat \<lparr>OPENAI_API_KEY = ''sk-test'', MAX_PROMPTS_PER_WEEK = 4000\<rparr> 1000
        (Some \<lparr>userId = JStr ''u1'', message = JStr ''hi''\<rparr>) (HttpError 429 (JStr ''slow down''))
        (fst (new_user ''u1'' (startup 0)))) = upstream_limit"
proof -
  let ?cfg = "\<lparr>OPENAI_API_KEY = ''sk-test'', MAX_PROMPTS_PER_WEEK = 4000\<rparr>"
  let ?s = "fst (new_user ''u1'' (startup 0))"
  have r: "count (resetWeekly 1000 ?s) = 0"
    by (simp add: resetWeekly_eq new_user_def startup_def week_ms_def)
  have h: "chat_begin ?cfg 1000 (Some \<lparr>userId = JStr ''u1'', message = JStr ''hi''\<rparr>) ?s
     = (resetWeekly 1000 ?s,
        Inr \<lparr>p_userId = ''u1'', p_message = JStr ''hi'', conversation = 0,
             call = build_request ?cfg [] (JStr ''hi'')\<rparr>)"
    using chat_begin_proceeds [of "\<lparr>userId = JStr ''u1'', message = JStr ''hi''\<rparr>" "''u1''" ?s 0 1000 ?cfg]
    by (simp add: r) (simp add: new_user_def startup_def)
  from upstream_rate_limit_answer [OF h, of "JStr ''slow down''"] h
  show ?thesis by simp
qed

text \<open>
  Claim C3 as stated, that an upstream rate limit is answered with a 5xx status,
  fails: the answer to a valid request whose upstream call returns 429 has status 429.
\<close>

theorem upstream_rate_limit_5xx_counterexample:
  "\<not> isl (snd (chat_begin \<lparr>OPENAI_API_KEY = ''sk-test'', MAX_PROMPTS_PER_WEEK = 4000\<rparr> 1000
            (Some \<lparr>userId = JStr ''u1'', message = JStr ''hi''\<rparr>)
            (fst (new_user ''u1'' (startup 0)))))
   \<and> status (snd (chat \<lparr>OPENAI_API_KEY = ''sk-test'', MAX_PROMPTS_PER_WEEK = 4000\<rparr> 1000
            (Some \<lparr>userId = JStr ''u1'', message = JStr ''hi''\<rparr>) (HttpError 429 JNull)
            (fst (new_user ''u1'' (startup 0))))) = 429
   \<and> \<not> (500 \<le> status (snd (chat \<lparr>OPENAI_API_KEY = ''sk-test'', MAX_PROMPTS_PER_WEEK = 4000\<rparr> 1000
            (Some \<lparr>userId = JStr ''u1'', message = JStr ''hi''\<rparr>) (HttpError 429 JNull)
            (fst (new_user ''u1'' (startup 0))))))"
  by (simp add: chat_def chat_begin_def new_user_def startup_def resetWeekly_def week_ms_def
      upstream_limit_def Let_def)

section \<open>Where the reset check runs\<close>

text \<open>
  Claim C4. The reset check is meant to run before every read of the counter. At the
  failing input, the state after ten exchanges in a window that began seven days ago,
  \<open>/api/health\<close> reports \<open>promptsUsed = 10\<close> and leaves the counter at 10,
  while \<open>/api/stats\<close> at the same instant runs the check and reports 0.
\<close>

theorem health_reports_count_without_reset:
  "weekStart (srv (run example_config ten_exchanges (boot 0))) = 0
   \<and> map_of (body (snd (get_health example_config 604800000
        (srv (run example_config ten_exchanges (boot 0)))))) ''promptsUsed'' = Some (JNum 10)
   \<and> count (fst (get_health example_config 604800000
        (srv (run example_config ten_exchanges (boot 0))))) = 10
   \<and> map_of (body (snd (get_stats example_config 604800000
        (srv (run example_config ten_exchanges (boot 0)))))) ''promptsUsed'' = Some (JNum 0)"
  by code_simp

section \<open>The bound on a history\<close>

text \<open>
  Claim C5. In every state reached from startup by any sequence of requests, however
  interleaved, a session's stored history has at most 20 entries. A successful chat
  exchange leaves as the session's history the last 18 entries (or all, if fewer) of
  the previous history, in their order, followed by the new user message and the
  reply: the oldest entries are dropped from the front and the new pair is at the end.
\<close>

theorem history_bounded_most_recent:
  "(history_of (srv (run cfg evs (boot t0))) uid = Some h \<longrightarrow> length h \<le> 20)
   \<and> history_of (fst (chat_resume cfg p (Completed v) s)) (p_userId p)
       = Some (drop (length (arrays s (conversation p)) - 18) (arrays s (conversation p))
               @ [\<lparr>role = ''user'', content = p_message p\<rparr>, \<lparr>role = ''assistant'', content = v\<rparr>])
   \<and> (chat_begin cfg now (Some b) s = (s1, Inr p) \<and> userId b = JStr uid' \<and> history_of s uid' = Some old \<longrightarrow>
        history_of (fst (chat cfg now (Some b) (Completed v) s)) uid'
          = Some (drop (length old - 18) old
                  @ [\<lparr>role = ''user'', content = message b\<rparr>, \<lparr>role = ''assistant'', content = v\<rparr>])
        \<and> length (drop (length old - 18) old
                  @ [\<lparr>role = ''user'', content = message b\<rparr>, \<lparr>role = ''assistant'', content = v\<rparr>]) \<le> 20)"
proof (intro conjI impI)
  assume "history_of (srv (run cfg evs (boot t0))) uid = Some h"
  from run_history_ok [OF this] show "length h \<le> 20" by simp
next
  show "history_of (fst (chat_resume cfg p (Completed v) s)) (p_userId p)
       = Some (drop (length (arrays s (conversation p)) - 18) (arrays s (conversation p))
               @ [\<lparr>role = ''user'', content = p_message p\<rparr>, \<lparr>role = ''assistant'', content = v\<rparr>])"
    by (rule history_of_chat_resume)
next
  assume a: "chat_begin cfg now (Some b) s = (s1, Inr p) \<and> userId b = JStr uid' \<and> history_of s uid' = Some old"
  then have beg: "chat_begin cfg now (Some b) s = (s1, Inr p)" by simp
  from chat_begin_pending [OF beg] a
  have p: "p_userId p = uid'" "p_message p = message b" "arrays s1 (conversation p) = old"
    by (auto simp: history_of_def)
  from history_of_chat_resume [of cfg p v s1] p beg
  show "history_of (fst (chat cfg now (Some b) (Completed v) s)) uid'
          = Some (drop (length old - 18) old
                  @ [\<lparr>role = ''user'', content = message b\<rparr>, \<lparr>role = ''assistant'', content = v\<rparr>])"
    by (simp add: chat_def)
next
  show "length (drop (length old - 18) old
                  @ [\<lparr>role = ''user'', content = message b\<rparr>, \<lparr>role = ''assistant'', content = v\<rparr>]) \<le> 20"
    by simp
qed

theorem history_bounded_most_recent_witness:
  "history_of (srv (run example_config ten_exchanges (boot 0))) ''u1'' = Some ten_pairs
   \<and> length ten_pairs \<le> 20
   \<and> chat_begin example_config 2000 (Some \<lparr>userId = JStr ''u1'', message = JStr ''new''\<rparr>)
        (srv (run example_config ten_exchanges (boot 0)))
       = (resetWeekly 2000 (srv (run example_config ten_exchanges (boot 0))),
          Inr \<lparr>p_userId = ''u1'', p_message = JStr ''new'', conversation = 0,
               call = build_request example_config
                        (arrays (srv (run example_config ten_exchanges (boot 0))) 0) (JStr ''new'')\<rparr>)
   \<and> history_of (fst (chat example_config 2000 (Some \<lparr>userId = JStr ''u1'', message = JStr ''new''\<rparr>)
        (Completed (JStr ''answer'')) (srv (run example_config ten_exchanges (boot 0))))) ''u1''
       = Some (drop 2 ten_pairs
               @ [\<lparr>role = ''user'', content = JStr ''new''\<rparr>,
                  \<lparr>role = ''assistant'', content = JStr ''answer''\<rparr>])"
proof -
  let ?s = "srv (run example_config ten_exchanges (boot 0))"
  let ?b = "\<lparr>userId = JStr ''u1'', message = JStr ''new''\<rparr>"
  let ?p = "\<lparr>p_userId = ''u1'', p_message = JStr ''new'', conversation = 0,
             call = build_request example_config (arrays ?s 0) (JStr ''new'')\<rparr>"
  have beg: "chat_begin example_config 2000 (Some ?b) ?s = (resetWeekly 2000 ?s, Inr ?p)"
    using chat_begin_proceeds [of ?b "''u1''" ?s 0 2000 example_config]
      ten_exchanges_session ten_exchanges_count
    by simp
  have u: "userId ?b = JStr ''u1''" and m: "message ?b = JStr ''new''"
    by simp_all
  note T = history_bounded_most_recent [where cfg = example_config and evs = ten_exchanges
      and ?t0.0 = 0 and uid = "''u1''" and h = ten_pairs and now = 2000 and b = ?b and s = ?s
      and ?s1.0 = "resetWeekly 2000 ?s" and p = ?p and uid' = "''u1''" and old = ten_pairs
      and v = "JStr ''answer''"]
  from T ten_exchanges_history have c1: "length ten_pairs \<le> 20"
    by blast
  from T beg u ten_exchanges_history
  have "history_of (fst (chat example_config 2000 (Some ?b) (Completed (JStr ''answer'')) ?s)) ''u1''
       = Some (drop (length ten_pairs - 18) ten_pairs
               @ [\<lparr>role = ''user'', content = message ?b\<rparr>,
                  \<lparr>role = ''assistant'', content = JStr ''answer''\<rparr>])"
    by blast
  then have c3: "history_of (fst (chat example_config 2000 (Some ?b) (Completed (JStr ''answer'')) ?s)) ''u1''
       = Some (drop 2 ten_pairs
               @ [\<lparr>role = ''user'', content = JStr ''new''\<rparr>,
                  \<lparr>role = ''assistant'', content = JStr ''answer''\<rparr>])"
    by (simp add: length_ten_pairs)
  from ten_exchanges_history c1 beg c3 show ?thesis
    by (intro conjI)
qed

section \<open>The quota gate\<close>

text \<open>
  Claim C6. For a chat request with a message on an existing session, if the counter
  after the lazy reset has reached \<open>MAX_PROMPTS_PER_WEEK\<close>, the gateway answers 429
  with the code \<open>WEEKLY_LIMIT_EXCEEDED\<close>; no upstream call is made (no handler is
  suspended and the answer does not depend on any upstream outcome), the sessions and
  their histories are unchanged, and the counter stays at its value after the reset.
\<close>

theorem weekly_limit_reached:
  assumes "userId b = JStr uid" "uid \<noteq> []" "truthy (message b)" "userSessions s uid = Some r"
    and "MAX_PROMPTS_PER_WEEK cfg \<le> count (resetWeekly now s)"
  shows "chat_begin cfg now (Some b) s = (resetWeekly now s, Inl (weekly_limit_exceeded cfg))
     \<and> chat cfg now (Some b) out s = (resetWeekly now s, weekly_limit_exceeded cfg)
     \<and> status (weekly_limit_exceeded cfg) = 429
     \<and> map_of (body (weekly_limit_exceeded cfg)) ''code'' = Some (JStr ''WEEKLY_LIMIT_EXCEEDED'')
     \<and> userSessions (resetWeekly now s) = userSessions s
     \<and> arrays (resetWeekly now s) = arrays s
     \<and> history_of (fst (chat cfg now (Some b) out s)) = history_of s
     \<and> count (fst (chat cfg now (Some b) out s)) = count (resetWeekly now s)
     \<and> (srv w = s \<longrightarrow> inflight (exec cfg (ChatBegin now (Some b)) w) = inflight w)"
proof -
  have b: "chat_begin cfg now (Some b) s = (resetWeekly now s, Inl (weekly_limit_exceeded cfg))"
    using assms by (simp add: chat_begin_def Let_def)
  then have c: "chat cfg now (Some b) out s = (resetWeekly now s, weekly_limit_exceeded cfg)"
    by (simp add: chat_def)
  have h: "history_of (resetWeekly now s) = history_of s"
    by (rule ext) simp
  show ?thesis
    using b c h by (simp add: weekly_limit_exceeded_def)
qed

theorem weekly_limit_reached_witness:
  "userId \<lparr>userId = JStr ''u1'', message = JStr ''hi''\<rparr> = JStr ''u1'' \<and> ''u1'' \<noteq> []
   \<and> truthy (message \<lparr>userId = JStr ''u1'', message = JStr ''hi''\<rparr>)
   \<and> userSessions ((fst (new_user ''u1'' (startup 0)))\<lparr>count := 1\<rparr>) ''u1'' = Some 0
   \<and> MAX_PROMPTS_PER_WEEK \<lparr>OPENAI_API_KEY = ''sk-test'', MAX_PROMPTS_PER_WEEK = 1\<rparr>
       \<le> count (resetWeekly 1000 ((fst (new_user ''u1'' (startup 0)))\<lparr>count := 1\<rparr>))
   \<and> srv \<lparr>srv = (fst (new_user ''u1'' (startup 0)))\<lparr>count := 1\<rparr>, inflight = []\<rparr>
       = (fst (new_user ''u1'' (startup 0)))\<lparr>count := 1\<rparr>
   \<and> chat \<lparr>OPENAI_API_KEY = ''sk-test'', MAX_PROMPTS_PER_WEEK = 1\<rparr> 1000
        (Some \<lparr>userId = JStr ''u1'', message = JStr ''hi''\<rparr>) (Completed (JStr ''ok''))
        ((fst (new_user ''u1'' (startup 0)))\<lparr>count := 1\<rparr>)
     = (resetWeekly 1000 ((fst (new_user ''u1'' (startup 0)))\<lparr>count := 1\<rparr>),
        weekly_limit_exceeded \<lparr>OPENAI_API_KEY = ''sk-test'', MAX_PROMPTS_PER_WEEK = 1\<rparr>)
   \<and> count (fst (chat \<lparr>OPENAI_API_KEY = ''sk-test'', MAX_PROMPTS_PER_WEEK = 1\<rparr> 1000
        (Some \<lparr>userId = JStr ''u1'', message = JStr ''hi''\<rparr>) (Completed (JStr ''ok''))
        ((fst (new_user ''u1'' (startup 0)))\<lparr>count := 1\<rparr>))) = 1
   \<and> inflight (exec \<lparr>OPENAI_API_KEY = ''sk-test'', MAX_PROMPTS_PER_WEEK = 1\<rparr>
        (ChatBegin 1000 (Some \<lparr>userId = JStr ''u1'', message = JStr ''hi''\<rparr>))
        \<lparr>srv = (fst (new_user ''u1'' (startup 0)))\<lparr>count := 1\<rparr>, inflight = []\<rparr>) = []"
proof -
  let ?cfg = "\<lparr>OPENAI_API_KEY = ''sk-test'', MAX_PROMPTS_PER_WEEK = 1\<rparr>"
  let ?s = "(fst (new_user ''u1'' (startup 0)))\<lparr>count := 1\<rparr>"
  let ?b = "\<lparr>userId = JStr ''u1'', message = JStr ''hi''\<rparr>"
  have 1: "userId ?b = JStr ''u1''" and 2: "''u1'' \<noteq> []" and 3: "truthy (message ?b)"
    by simp_all
  have 4: "userSessions ?s ''u1'' = Some 0"
    by (simp add: new_user_def startup_def)
  have r: "count (resetWeekly 1000 ?s) = 1"
    by (simp add: resetWeekly_eq new_user_def startup_def week_ms_def)
  then have 5: "MAX_PROMPTS_PER_WEEK ?cfg \<le> count (resetWeekly 1000 ?s)"
    by simp
  from weekly_limit_reached [OF 1 2 3 4 5, of "Completed (JStr ''ok'')" "\<lparr>srv = ?s, inflight = []\<rparr>"] 4 5 r
  show ?thesis by simp
qed

section \<open>Context assembly\<close>

text \<open>
  Claim C8. For every chat request that reaches the upstream call, the messages sent
  are exactly the fixed system instruction (role \<open>system\<close>, with the source's
  French text), then the session's stored history in order, then the new user
  message with role \<open>user\<close>; nothing is reordered, altered or cut.
\<close>

theorem context_assembly:
  assumes "chat_begin cfg now req s = (s1, Inr p)"
  shows "\<exists>b uid h. req = Some b \<and> userId b = JStr uid \<and> history_of s uid = Some h
     \<and> messages (call p) =
         [\<lparr>role = ''system'',
           content = JStr (''Tu es un assistant IA utile et bienveillant. R'' @ [CHR 0xC3, CHR 0xA9]
             @ ''ponds de mani'' @ [CHR 0xC3, CHR 0xA8] @ ''re concise et professionnelle en fran''
             @ [CHR 0xC3, CHR 0xA7] @ ''ais.'')\<rparr>]
         @ h @ [\<lparr>role = ''user'', content = message b\<rparr>]
     \<and> length (messages (call p)) = length h + 2"
  using chat_begin_pending [OF assms]
  by (auto simp: build_request_def history_of_def system_message_def e_acute_def e_grave_def
      c_cedilla_def)

theorem context_assembly_witness:
  "chat_begin example_config 2000 (Some \<lparr>userId = JStr ''u1'', message = JStr ''third''\<rparr>)
      (srv (run example_config two_exchanges (boot 0)))
     = (resetWeekly 2000 (srv (run example_config two_exchanges (boot 0))),
        Inr \<lparr>p_userId = ''u1'', p_message = JStr ''third'', conversation = 0,
             call = build_request example_config
                      (arrays (srv (run example_config two_exchanges (boot 0))) 0) (JStr ''third'')\<rparr>)
   \<and> messages (build_request example_config
                      (arrays (srv (run example_config two_exchanges (boot 0))) 0) (JStr ''third''))
     = [\<lparr>role = ''system'',
         content = JStr (''Tu es un assistant IA utile et bienveillant. R'' @ [CHR 0xC3, CHR 0xA9]
           @ ''ponds de mani'' @ [CHR 0xC3, CHR 0xA8] @ ''re concise et professionnelle en fran''
           @ [CHR 0xC3, CHR 0xA7] @ ''ais.'')\<rparr>,
        \<lparr>role = ''user'', content = JStr ''first''\<rparr>,
        \<lparr>role = ''assistant'', content = JStr ''one''\<rparr>,
        \<lparr>role = ''user'', content = JStr ''second''\<rparr>,
        \<lparr>role = ''assistant'', content = JStr ''two''\<rparr>,
        \<lparr>role = ''user'', content = JStr ''third''\<rparr>]"
proof -
  let ?s = "srv (run example_config two_exchanges (boot 0))"
  let ?b = "\<lparr>userId = JStr ''u1'', message = JStr ''third''\<rparr>"
  let ?p = "\<lparr>p_userId = ''u1'', p_message = JStr ''third'', conversation = 0,
             call = build_request example_config (arrays ?s 0) (JStr ''third'')\<rparr>"
  have beg: "chat_begin example_config 2000 (Some ?b) ?s = (resetWeekly 2000 ?s, Inr ?p)"
    using chat_begin_proceeds [of ?b "''u1''" ?s 0 2000 example_config]
      two_exchanges_session two_exchanges_count
    by simp
  from context_assembly [OF beg] two_exchanges_history
  have "messages (call ?p) =
     [\<lparr>role = ''system'',
       content = JStr (''Tu es un assistant IA utile et bienveillant. R'' @ [CHR 0xC3, CHR 0xA9]
         @ ''ponds de mani'' @ [CHR 0xC3, CHR 0xA8] @ ''re concise et professionnelle en fran''
         @ [CHR 0xC3, CHR 0xA7] @ ''ais.'')\<rparr>,
      \<lparr>role = ''user'', content = JStr ''first''\<rparr>,
      \<lparr>role = ''assistant'', content = JStr ''one''\<rparr>,
      \<lparr>role = ''user'', content = JStr ''second''\<rparr>,
      \<lparr>role = ''assistant'', content = JStr ''two''\<rparr>,
      \<lparr>role = ''user'', content = JStr ''third''\<rparr>]"
    by auto
  with beg show ?thesis by simp
qed

section \<open>A rejected credential\<close>



section \<open>Alternation of roles\<close>

text \<open>
  Claim C10. In every state reached from startup, a session's stored history has even
  length, with role \<open>user\<close> at the even indices and role \<open>assistant\<close> at the odd
  ones; appending a pair to it and trimming removes either nothing or exactly two
  entries, and leaves exactly 20 entries whenever the bound is exceeded.
\<close>

theorem history_alternates:
  assumes "history_of (srv (run cfg evs (boot t0))) uid = Some h"
  shows "even (length h)
     \<and> (\<forall>i<length h. role (h ! i) = (if even i then ''user'' else ''assistant''))
     \<and> (length (h @ [u, a]) - length (trim (h @ [u, a])) = 0
         \<or> length (h @ [u, a]) - length (trim (h @ [u, a])) = 2)
     \<and> (length h + 2 > 20 \<longrightarrow> length (trim (h @ [u, a])) = 20)"
proof -
  from run_history_ok [OF assms] have ok: "length h \<le> 20" "alternating h" by simp_all
  from ok(2) have ev: "even (length h)" by (rule alternating_even)
  have "length h \<le> 18 \<or> length h = 20"
  proof (rule ccontr)
    assume "\<not> (length h \<le> 18 \<or> length h = 20)"
    with ok(1) have "length h = 19" by arith
    with ev show False by simp
  qed
  then have "length (h @ [u, a]) - length (trim (h @ [u, a])) = 0
         \<or> length (h @ [u, a]) - length (trim (h @ [u, a])) = 2"
    by (auto simp: trim_def)
  moreover have "length h + 2 > 20 \<longrightarrow> length (trim (h @ [u, a])) = 20"
    by (auto simp: trim_def)
  ultimately show ?thesis
    using ev alternating_nth [OF ok(2)] by simp
qed

theorem history_alternates_witness:
  "history_of (srv (run example_config ten_exchanges (boot 0))) ''u1'' = Some ten_pairs
   \<and> even (length ten_pairs)
   \<and> role (ten_pairs ! 0) = ''user''
   \<and> role (ten_pairs ! 19) = ''assistant''
   \<and> length (trim (ten_pairs @ [\<lparr>role = ''user'', content = JStr ''new''\<rparr>,
                                 \<lparr>role = ''assistant'', content = JStr ''answer''\<rparr>])) = 20"
proof -
  note T = history_alternates [OF ten_exchanges_history,
      of "\<lparr>role = ''user'', content = JStr ''new''\<rparr>"
         "\<lparr>role = ''assistant'', content = JStr ''answer''\<rparr>"]
  from T have e: "even (length ten_pairs)" by blast
  from T have "0 < length ten_pairs \<longrightarrow> role (ten_pairs ! 0) = (if even (0::nat) then ''user'' else ''assistant'')"
    by blast
  then have r0: "role (ten_pairs ! 0) = ''user''"
    by (simp add: length_ten_pairs)
  from T have "19 < length ten_pairs \<longrightarrow> role (ten_pairs ! 19) = (if even (19::nat) then ''user'' else ''assistant'')"
    by blast
  then have r19: "role (ten_pairs ! 19) = ''assistant''"
    by (simp add: length_ten_pairs)
  from T have "20 < length ten_pairs + 2 \<longrightarrow>
      length (trim (ten_pairs @ [\<lparr>role = ''user'', content = JStr ''new''\<rparr>,
                                 \<lparr>role = ''assistant'', content = JStr ''answer''\<rparr>])) = 20"
    by blast
  then have t: "length (trim (ten_pairs @ [\<lparr>role = ''user'', content = JStr ''new''\<rparr>,
                                 \<lparr>role = ''assistant'', content = JStr ''answer''\<rparr>])) = 20"
    by (simp add: length_ten_pairs)
  from ten_exchanges_history e r0 r19 t show ?thesis
    by (intro conjI)
qed

end
